theory Spec2Isabelle
  imports Complex_Main "HOL-Library.Word"
begin

section \<open>JavaScript values used by the two modules\<close>

text \<open>
  A JavaScript string is a sequence of UTF-16 code units. The region codes are ASCII, the
  province names are Chinese, so a string is a list of 16-bit words; \<open>ascii\<close> embeds an
  ASCII literal.
\<close>

type_synonym jsstring = "16 word list"

definition ascii :: "string \<Rightarrow> jsstring" where
  "ascii s = map (\<lambda>c. of_nat (of_char c)) s"

text \<open>
  A number is an IEEE-754 double. The program never computes with one: it only converts
  numbers to strings and obtains them from \<open>parseFloat\<close>. The values other than NaN are
  therefore kept abstract (the type parameter \<open>'f\<close>), and the two built-in conversions are
  parameters of the functions that call them.
\<close>

datatype 'f number = NaN | Num 'f

text \<open>
  The values a parsed JSON document can hold, \<open>undefined\<close> (what reading a missing
  property or index gives), and \<open>Builtin k\<close>, the member that the standard
  \<open>Object.prototype\<close> holds under the name \<open>k\<close> (a function, or for \<open>__proto__\<close> the
  prototype itself). An object is the list of its own properties in creation order.
\<close>

datatype 'f jsvalue =
    Undefined
  | Null
  | Boolean bool
  | Number "'f number"
  | Str jsstring
  | Array "'f jsvalue list"
  | Object "(jsstring \<times> 'f jsvalue) list"
  | Builtin jsstring

datatype error = TypeError

subsection \<open>Own property order\<close>

definition is_digit :: "16 word \<Rightarrow> bool" where
  "is_digit c = (0x30 \<le> c \<and> c \<le> 0x39)"

definition digit_value :: "16 word \<Rightarrow> nat" where
  "digit_value c = unat c - 48"

definition decimal_value :: "jsstring \<Rightarrow> nat" where
  "decimal_value s = foldl (\<lambda>n c. 10 * n + digit_value c) 0 s"

text \<open>
  An array index is a property name that is the canonical decimal form of an integer below
  \<open>2^32 - 1\<close>: digits only, no leading zero except for \<open>0\<close> itself.
\<close>

definition is_array_index :: "jsstring \<Rightarrow> bool" where
  "is_array_index s =
     (case s of
        [] \<Rightarrow> False
      | c # cs \<Rightarrow> list_all is_digit s \<and> (c \<noteq> 0x30 \<or> cs = []) \<and> decimal_value s < 4294967295)"

text \<open>
  \<open>Object.keys\<close>, \<open>Object.entries\<close> and \<open>Object.values\<close> enumerate the own properties
  with the array indices first, in ascending numeric order, and the other names after
  them in creation order.
\<close>

definition own_properties :: "(jsstring \<times> 'a) list \<Rightarrow> (jsstring \<times> 'a) list" where
  "own_properties ps =
     sort_key (\<lambda>p. decimal_value (fst p)) (filter (\<lambda>p. is_array_index (fst p)) ps)
     @ filter (\<lambda>p. \<not> is_array_index (fst p)) ps"

definition Object_keys :: "(jsstring \<times> 'a) list \<Rightarrow> jsstring list" where
  "Object_keys ps = map fst (own_properties ps)"

definition Object_entries :: "(jsstring \<times> 'a) list \<Rightarrow> (jsstring \<times> 'a) list" where
  "Object_entries ps = own_properties ps"

subsection \<open>Property lookup through the prototype\<close>

text \<open>
  \<open>obj[key]\<close> and \<open>key in obj\<close> also find what the object inherits. The region table is
  an object literal, so its prototype is \<open>Object.prototype\<close>, taken here with the
  members the language standard gives it.
\<close>

definition Object_prototype_keys :: "jsstring list" where
  "Object_prototype_keys = map ascii
     [''constructor'', ''hasOwnProperty'', ''isPrototypeOf'', ''propertyIsEnumerable'',
      ''toLocaleString'', ''toString'', ''valueOf'', ''__proto__'',
      ''__defineGetter__'', ''__defineSetter__'', ''__lookupGetter__'', ''__lookupSetter__'']"

definition Get :: "(jsstring \<times> jsstring) list \<Rightarrow> jsstring \<Rightarrow> 'f jsvalue" where
  "Get obj key =
     (case map_of obj key of
        Some v \<Rightarrow> Str v
      | None \<Rightarrow> if key \<in> set Object_prototype_keys then Builtin key else Undefined)"

definition HasProperty :: "(jsstring \<times> 'a) list \<Rightarrow> jsstring \<Rightarrow> bool" where
  "HasProperty obj key = (map_of obj key \<noteq> None \<or> key \<in> set Object_prototype_keys)"

section \<open>utils/adcodeMap.ts\<close>

text \<open>The object literal \<open>ADCODE_TO_PROVINCE\<close>, entry by entry in the order of the source.\<close>

definition ADCODE_TO_PROVINCE :: "(jsstring \<times> jsstring) list" where
  "ADCODE_TO_PROVINCE =
  [(ascii ''110000'', [0x5317, 0x4EAC, 0x5E02]),
   (ascii ''120000'', [0x5929, 0x6D25, 0x5E02]),
   (ascii ''130000'', [0x6CB3, 0x5317, 0x7701]),
   (ascii ''140000'', [0x5C71, 0x897F, 0x7701]),
   (ascii ''150000'', [0x5185, 0x8499, 0x53E4, 0x81EA, 0x6CBB, 0x533A]),
   (ascii ''210000'', [0x8FBD, 0x5B81, 0x7701]),
   (ascii ''220000'', [0x5409, 0x6797, 0x7701]),
   (ascii ''230000'', [0x9ED1, 0x9F99, 0x6C5F, 0x7701]),
   (ascii ''310000'', [0x4E0A, 0x6D77, 0x5E02]),
   (ascii ''320000'', [0x6C5F, 0x82CF, 0x7701]),
   (ascii ''330000'', [0x6D59, 0x6C5F, 0x7701]),
   (ascii ''340000'', [0x5B89, 0x5FBD, 0x7701]),
   (ascii ''350000'', [0x798F, 0x5EFA, 0x7701]),
   (ascii ''360000'', [0x6C5F, 0x897F, 0x7701]),
   (ascii ''370000'', [0x5C71, 0x4E1C, 0x7701]),
   (ascii ''410000'', [0x6CB3, 0x5357, 0x7701]),
   (ascii ''420000'', [0x6E56, 0x5317, 0x7701]),
   (ascii ''430000'', [0x6E56, 0x5357, 0x7701]),
   (ascii ''440000'', [0x5E7F, 0x4E1C, 0x7701]),
   (ascii ''450000'', [0x5E7F, 0x897F, 0x58EE, 0x65CF, 0x81EA, 0x6CBB, 0x533A]),
   (ascii ''460000'', [0x6D77, 0x5357, 0x7701]),
   (ascii ''500000'', [0x91CD, 0x5E86, 0x5E02]),
   (ascii ''510000'', [0x56DB, 0x5DDD, 0x7701]),
   (ascii ''520000'', [0x8D35, 0x5DDE, 0x7701]),
   (ascii ''530000'', [0x4E91, 0x5357, 0x7701]),
   (ascii ''540000'', [0x897F, 0x85CF, 0x81EA, 0x6CBB, 0x533A]),
   (ascii ''610000'', [0x9655, 0x897F, 0x7701]),
   (ascii ''620000'', [0x7518, 0x8083, 0x7701]),
   (ascii ''630000'', [0x9752, 0x6D77, 0x7701]),
   (ascii ''640000'', [0x5B81, 0x590F, 0x56DE, 0x65CF, 0x81EA, 0x6CBB, 0x533A]),
   (ascii ''650000'', [0x65B0, 0x7586, 0x7EF4, 0x543E, 0x5C14, 0x81EA, 0x6CBB, 0x533A]),
   (ascii ''710000'', [0x53F0, 0x6E7E, 0x7701]),
   (ascii ''810000'', [0x9999, 0x6E2F, 0x7279, 0x522B, 0x884C, 0x653F, 0x533A]),
   (ascii ''820000'', [0x6FB3, 0x95E8, 0x7279, 0x522B, 0x884C, 0x653F, 0x533A])]"

text \<open>
  The parameter \<open>adcode: string | number\<close>, and \<open>String(adcode)\<close>. A string converts to
  itself and NaN to \<open>NaN\<close>; \<open>numberToString\<close> is the built-in conversion of the other
  numbers.
\<close>

datatype 'f adcode = AdcodeStr jsstring | AdcodeNum "'f number"

definition ToString :: "('f \<Rightarrow> jsstring) \<Rightarrow> 'f adcode \<Rightarrow> jsstring" where
  "ToString numberToString adcode =
     (case adcode of
        AdcodeStr s \<Rightarrow> s
      | AdcodeNum NaN \<Rightarrow> ascii ''NaN''
      | AdcodeNum (Num x) \<Rightarrow> numberToString x)"

text \<open>
  The optional parameter \<open>options\<close>: \<open>None\<close> is an omitted argument or an omitted field.
  \<open>getAllProvinceAdcodes\<close> and \<open>isValidProvinceAdcode\<close> declare the first field only.
\<close>

record options =
  includeSpecialRegions :: "bool option"
  returnDefault :: "jsstring option"

text \<open>\<open>const { includeSpecialRegions = true } = options || {}\<close>\<close>

definition includeSpecialRegions_of :: "options option \<Rightarrow> bool" where
  "includeSpecialRegions_of opts =
     (case opts of
        None \<Rightarrow> True
      | Some opt \<Rightarrow> (case includeSpecialRegions opt of None \<Rightarrow> True | Some b \<Rightarrow> b))"

definition returnDefault_of :: "options option \<Rightarrow> jsstring option" where
  "returnDefault_of opts = (case opts of None \<Rightarrow> None | Some opt \<Rightarrow> returnDefault opt)"

text \<open>\<open>/^\d{6}$/.test(codeStr)\<close>: exactly six code units, each an ASCII digit.\<close>

definition test_six_digits :: "jsstring \<Rightarrow> bool" where
  "test_six_digits codeStr = (length codeStr = 6 \<and> list_all is_digit codeStr)"

definition getProvinceNameByAdcode ::
  "('f \<Rightarrow> jsstring) \<Rightarrow> 'f adcode \<Rightarrow> options option \<Rightarrow> 'f jsvalue" where
  "getProvinceNameByAdcode numberToString adcode opts =
     (let includeSpecial = includeSpecialRegions_of opts;
          returnDflt = returnDefault_of opts;
          codeStr = ToString numberToString adcode;
          orCodeStr = (case returnDflt of None \<Rightarrow> codeStr | Some d \<Rightarrow> d)
      in if \<not> test_six_digits codeStr then Str orCodeStr
         else if \<not> includeSpecial
                 \<and> codeStr \<in> set (map ascii [''710000'', ''810000'', ''820000''])
         then Str orCodeStr
         else (case Get ADCODE_TO_PROVINCE codeStr of
                 Undefined \<Rightarrow> Str orCodeStr
               | Null \<Rightarrow> Str orCodeStr
               | provinceName \<Rightarrow> provinceName))"

definition getAllProvinceAdcodes :: "options option \<Rightarrow> jsstring list" where
  "getAllProvinceAdcodes opts =
     (let includeSpecial = includeSpecialRegions_of opts;
          adcodes = Object_keys ADCODE_TO_PROVINCE
      in if \<not> includeSpecial
         then filter (\<lambda>code. code \<notin> set (map ascii [''710000'', ''810000'', ''820000''])) adcodes
         else adcodes)"

definition getAdcodeByProvinceName :: "jsstring \<Rightarrow> jsstring option" where
  "getAdcodeByProvinceName provinceName =
     (let entries = Object_entries ADCODE_TO_PROVINCE;
          found = find (\<lambda>(_, name). name = provinceName) entries
      in case found of Some entry \<Rightarrow> Some (fst entry) | None \<Rightarrow> None)"

definition isValidProvinceAdcode ::
  "('f \<Rightarrow> jsstring) \<Rightarrow> 'f adcode \<Rightarrow> options option \<Rightarrow> bool" where
  "isValidProvinceAdcode numberToString adcode opts =
     (let includeSpecial = includeSpecialRegions_of opts;
          codeStr = ToString numberToString adcode
      in if \<not> test_six_digits codeStr then False
         else if \<not> includeSpecial
                 \<and> codeStr \<in> set (map ascii [''710000'', ''810000'', ''820000''])
         then False
         else HasProperty ADCODE_TO_PROVINCE codeStr)"

text \<open>
  The built-in conversion on the numbers that are natural numbers below \<open>10^21\<close>, where
  it prints the decimal digits. The theorems hold for every conversion; this one serves the
  closed examples.
\<close>

fun natToString :: "nat \<Rightarrow> jsstring" where
  "natToString n =
     (if n < 10 then [of_nat (48 + n)]
      else natToString (n div 10) @ [of_nat (48 + n mod 10)])"

section \<open>App.tsx: from the response to the chart series\<close>

text \<open>The objects pushed to \<open>chartDatas\<close>. Nothing converts what goes into \<open>time\<close>.\<close>

record 'f chartData =
  name :: jsstring
  time :: "'f jsvalue list"
  "value" :: "'f number list"

text \<open>
  \<open>Object.values(item)\<close>: the elements of an array, the property values of an object in
  own property order, the code units of a string, nothing for the other primitives and
  for functions, and a \<open>TypeError\<close> for \<open>null\<close> and \<open>undefined\<close>.
\<close>

definition Object_values :: "'f jsvalue \<Rightarrow> error + 'f jsvalue list" where
  "Object_values v =
     (case v of
        Undefined \<Rightarrow> Inl TypeError
      | Null \<Rightarrow> Inl TypeError
      | Boolean b \<Rightarrow> Inr []
      | Number n \<Rightarrow> Inr []
      | Str s \<Rightarrow> Inr (map (\<lambda>c. Str [c]) s)
      | Array xs \<Rightarrow> Inr xs
      | Object ps \<Rightarrow> Inr (map snd (own_properties ps))
      | Builtin k \<Rightarrow> Inr [])"

text \<open>\<open>xs[i]\<close> on an array: \<open>undefined\<close> beyond its end.\<close>

definition index :: "'f jsvalue list \<Rightarrow> nat \<Rightarrow> 'f jsvalue" where
  "index xs i = (if i < length xs then xs ! i else Undefined)"

text \<open>
  \<open>value.map((item) => { ... })\<close>: the callback runs on the items in order and pushes
  onto \<open>_time\<close> and \<open>_value\<close>, here \<open>time'\<close> and \<open>value'\<close>; the array that \<open>map\<close> returns
  is dropped. \<open>parseFloat\<close> is the built-in, which converts its argument to a string
  first and cannot throw on a JSON value.
\<close>

fun value_map ::
  "('f jsvalue \<Rightarrow> 'f number) \<Rightarrow> 'f jsvalue list \<Rightarrow> 'f jsvalue list \<times> 'f number list
     \<Rightarrow> error + 'f jsvalue list \<times> 'f number list" where
  "value_map parseFloat [] (time', value') = Inr (time', value')"
| "value_map parseFloat (item # items) (time', value') =
     (case Object_values item of
        Inl e \<Rightarrow> Inl e
      | Inr item' \<Rightarrow>
          value_map parseFloat items
            (time' @ [index item' 0], value' @ [parseFloat (index item' 1)]))"

text \<open>
  \<open>for (const [key, value] of Object.entries(data))\<close>. Only an array has a \<open>map\<close> to
  call; on any other value the call is a \<open>TypeError\<close>.
\<close>

fun for_entries ::
  "('f jsvalue \<Rightarrow> 'f number) \<Rightarrow> (jsstring \<times> 'f jsvalue) list \<Rightarrow> 'f chartData list
     \<Rightarrow> error + 'f chartData list" where
  "for_entries parseFloat [] chartDatas = Inr chartDatas"
| "for_entries parseFloat ((key, v) # entries) chartDatas =
     (case v of
        Array items \<Rightarrow>
          (case value_map parseFloat items ([], []) of
             Inl e \<Rightarrow> Inl e
           | Inr (time', value') \<Rightarrow>
               for_entries parseFloat entries
                 (chartDatas @ [\<lparr>name = key, time = time', value = value'\<rparr>]))
      | _ \<Rightarrow> Inl TypeError)"

text \<open>
  Lines 47 to 62 of \<open>dblClickFn\<close>: from the response body \<open>data\<close>, an object given by its
  own properties, to the array handed to \<open>setChartData\<close>.
\<close>

definition dblClickFn_reshape ::
  "('f jsvalue \<Rightarrow> 'f number) \<Rightarrow> (jsstring \<times> 'f jsvalue) list \<Rightarrow> error + 'f chartData list" where
  "dblClickFn_reshape parseFloat data = for_entries parseFloat (Object_entries data) []"

text \<open>
  Modelled from the spec: the type \<open>ApiData\<close> of the response, declared in
  \<open>map3d/typed\<close>, which is not among the sources. A RawSeriesPayload maps each series
  name to a sequence of points, a point being a two-element array of a time label and a
  value. The two components are left unconstrained here, which covers the labels that
  are not strings and the values that do not parse. \<open>payload_object\<close> is the object
  the code receives for a payload.
\<close>

type_synonym 'f RawSeriesPoint = "'f jsvalue \<times> 'f jsvalue"

type_synonym 'f RawSeriesPayload = "(jsstring \<times> 'f RawSeriesPoint list) list"

definition point_value :: "'f RawSeriesPoint \<Rightarrow> 'f jsvalue" where
  "point_value p = Array [fst p, snd p]"

definition payload_object :: "'f RawSeriesPayload \<Rightarrow> (jsstring \<times> 'f jsvalue) list" where
  "payload_object payload = map (\<lambda>(key, points). (key, Array (map point_value points))) payload"

text \<open>
  The theorems hold for every function in the place of \<open>parseFloat\<close>. The closed
  examples need one: this stand-in agrees with the built-in on the string \<open>100.5\<close> and
  on the values that have no numeric prefix, and the examples apply it to nothing else.
\<close>

definition parseFloat_sample :: "rat jsvalue \<Rightarrow> rat number" where
  "parseFloat_sample v = (if v = Str (ascii ''100.5'') then Num (201 / 2) else NaN)"

text \<open>Whether a value is a string, for the elements of \<open>time\<close>.\<close>

fun is_string :: "'f jsvalue \<Rightarrow> bool" where
  "is_string (Str s) = True"
| "is_string _ = False"

text \<open>What the two loops build for one entry of a payload.\<close>

definition series_of ::
  "('f jsvalue \<Rightarrow> 'f number) \<Rightarrow> jsstring \<times> 'f RawSeriesPoint list \<Rightarrow> 'f chartData" where
  "series_of pf e =
     \<lparr>name = fst e, time = map fst (snd e), value = map (\<lambda>p. pf (snd p)) (snd e)\<rparr>"

text \<open>
  Two payloads for the examples: \<open>{"GDP": [["2020", "100.5"], ["2021", "abc"]]}\<close>, whose
  second value does not parse, and \<open>{"GDP": [[2020, "100.5"]]}\<close>, whose time label is a
  number.
\<close>

definition sample_payload :: "rat RawSeriesPayload" where
  "sample_payload =
     [(ascii ''GDP'', [(Str (ascii ''2020''), Str (ascii ''100.5'')),
                       (Str (ascii ''2021''), Str (ascii ''abc''))])]"

definition numeric_label_payload :: "rat RawSeriesPayload" where
  "numeric_label_payload = [(ascii ''GDP'', [(Number (Num 2020), Str (ascii ''100.5''))])]"

text \<open>
  The reshape returned normally and every element of every \<open>time\<close> sequence is a
  string.
\<close>

definition time_all_strings :: "error + 'f chartData list \<Rightarrow> bool" where
  "time_all_strings r =
     (case r of Inl e \<Rightarrow> False | Inr out \<Rightarrow> list_all (\<lambda>s. list_all is_string (time s)) out)"

section \<open>The region table\<close>

declare natToString.simps [simp del]

lemma table_keys_six_digits: "list_all (\<lambda>p. test_six_digits (fst p)) ADCODE_TO_PROVINCE"
  by (simp add: ADCODE_TO_PROVINCE_def ascii_def test_six_digits_def is_digit_def)

lemma prototype_keys_not_six_digits:
  "list_all (\<lambda>k. \<not> test_six_digits k) Object_prototype_keys"
  by (simp add: Object_prototype_keys_def ascii_def test_six_digits_def)

lemma table_keys_distinct: "distinct (map fst ADCODE_TO_PROVINCE)"
  by (simp add: ADCODE_TO_PROVINCE_def ascii_def)

lemma table_names_distinct: "distinct (map snd ADCODE_TO_PROVINCE)"
  by (simp add: ADCODE_TO_PROVINCE_def)

lemma table_keys_array_index: "list_all (\<lambda>p. is_array_index (fst p)) ADCODE_TO_PROVINCE"
  by (simp add: ADCODE_TO_PROVINCE_def ascii_def is_array_index_def is_digit_def
      decimal_value_def digit_value_def)

lemma table_keys_sorted: "sorted (map (\<lambda>p. decimal_value (fst p)) ADCODE_TO_PROVINCE)"
  by (simp add: ADCODE_TO_PROVINCE_def ascii_def decimal_value_def digit_value_def)

text \<open>
  Every key of the table is an array index, so the own property order is the numeric
  order of the keys; the literal lists them in that order already.
\<close>

lemma own_properties_table: "own_properties ADCODE_TO_PROVINCE = ADCODE_TO_PROVINCE"
proof -
  have a: "filter (\<lambda>p. is_array_index (fst p)) ADCODE_TO_PROVINCE = ADCODE_TO_PROVINCE"
    using table_keys_array_index by (simp add: list_all_iff)
  have b: "filter (\<lambda>p. \<not> is_array_index (fst p)) ADCODE_TO_PROVINCE = []"
    using table_keys_array_index by (simp add: list_all_iff)
  have c: "sort_key (\<lambda>p. decimal_value (fst p)) ADCODE_TO_PROVINCE = ADCODE_TO_PROVINCE"
    using table_keys_sorted by (rule sort_key_id_if_sorted)
  show ?thesis unfolding own_properties_def a b c by simp
qed

lemma six_digits_not_inherited: "test_six_digits k \<Longrightarrow> k \<notin> set Object_prototype_keys"
  using prototype_keys_not_six_digits by (auto simp: list_all_iff)

lemma table_key_six_digits: "k \<in> set (map fst ADCODE_TO_PROVINCE) \<Longrightarrow> test_six_digits k"
  using table_keys_six_digits by (auto simp: list_all_iff)

lemma map_of_table_key:
  "(map_of ADCODE_TO_PROVINCE k \<noteq> None) = (k \<in> set (map fst ADCODE_TO_PROVINCE))"
  by (simp add: map_of_eq_None_iff)

text \<open>A bare lookup does reach the prototype; behind the six-digit test it never does.\<close>

lemma Get_toString:
  "Get ADCODE_TO_PROVINCE (ascii ''toString'') = Builtin (ascii ''toString'')"
  by (simp add: Get_def ADCODE_TO_PROVINCE_def Object_prototype_keys_def ascii_def)

lemma HasProperty_toString: "HasProperty ADCODE_TO_PROVINCE (ascii ''toString'')"
  by (simp add: HasProperty_def Object_prototype_keys_def)

lemma Get_six_digits:
  "test_six_digits k \<Longrightarrow>
   Get ADCODE_TO_PROVINCE k =
     (case map_of ADCODE_TO_PROVINCE k of Some v \<Rightarrow> Str v | None \<Rightarrow> Undefined)"
  by (simp add: Get_def six_digits_not_inherited split: option.splits)

lemma HasProperty_six_digits:
  "test_six_digits k \<Longrightarrow>
   HasProperty ADCODE_TO_PROVINCE k = (k \<in> set (map fst ADCODE_TO_PROVINCE))"
  by (simp add: HasProperty_def six_digits_not_inherited map_of_eq_None_iff)

lemma find_name_Some:
  "distinct (map snd xs) \<Longrightarrow> (k, v) \<in> set xs \<Longrightarrow>
   find (\<lambda>(_, n). n = v) xs = Some (k, v)"
  by (induction xs) (auto simp: image_iff)

lemma find_name_None:
  "v \<notin> set (map snd xs) \<Longrightarrow> find (\<lambda>(_, n). n = v) xs = None"
  by (induction xs) auto

lemma test_six_digits_iff:
  "test_six_digits s = (length s = 6 \<and> (\<forall>c \<in> set s. 0x30 \<le> c \<and> c \<le> 0x39))"
  by (simp add: test_six_digits_def is_digit_def list_all_iff)

lemma special_codes_set:
  "set (map ascii [''710000'', ''810000'', ''820000'']) =
   {ascii ''710000'', ascii ''810000'', ascii ''820000''}"
  by simp

lemma map_of_table_710000:
  "map_of ADCODE_TO_PROVINCE (ascii ''710000'') = Some [0x53F0, 0x6E7E, 0x7701]"
  by (simp add: ADCODE_TO_PROVINCE_def ascii_def)

lemma map_of_table_440000:
  "map_of ADCODE_TO_PROVINCE (ascii ''440000'') = Some [0x5E7F, 0x4E1C, 0x7701]"
  by (simp add: ADCODE_TO_PROVINCE_def ascii_def)

lemma map_of_table_999999: "map_of ADCODE_TO_PROVINCE (ascii ''999999'') = None"
  by (simp add: ADCODE_TO_PROVINCE_def ascii_def)

lemma map_of_table_000000: "map_of ADCODE_TO_PROVINCE (ascii ''000000'') = None"
  by (simp add: ADCODE_TO_PROVINCE_def ascii_def)

lemma six_digits_examples:
  "test_six_digits (ascii ''710000'')" "test_six_digits (ascii ''440000'')"
  "test_six_digits (ascii ''999999'')" "test_six_digits (ascii ''000000'')"
  by (simp_all add: test_six_digits_def is_digit_def ascii_def)

section \<open>Forward lookup\<close>

text \<open>No entry of the table is its own key, so a returned code string is never an entry.\<close>

lemma table_entries_not_keys: "list_all (\<lambda>p. snd p \<noteq> fst p) ADCODE_TO_PROVINCE"
  by (simp add: ADCODE_TO_PROVINCE_def ascii_def)

lemma table_entry_not_key: "map_of ADCODE_TO_PROVINCE k = Some e \<Longrightarrow> e \<noteq> k"
  using table_entries_not_keys by (auto simp: list_all_iff dest!: map_of_SomeD)

lemma getProvinceNameByAdcode_eq:
  "getProvinceNameByAdcode nts adcode opts =
     (let codeStr = ToString nts adcode;
          orCodeStr = (case returnDefault_of opts of None \<Rightarrow> codeStr | Some d \<Rightarrow> d)
      in if \<not> test_six_digits codeStr then Str orCodeStr
         else if \<not> includeSpecialRegions_of opts
                 \<and> codeStr \<in> set (map ascii [''710000'', ''810000'', ''820000''])
         then Str orCodeStr
         else (case map_of ADCODE_TO_PROVINCE codeStr of
                 None \<Rightarrow> Str orCodeStr
               | Some entry \<Rightarrow> Str entry))"
  by (simp add: getProvinceNameByAdcode_def Let_def Get_six_digits split: option.splits)

text \<open>
  Claim C1. With \<open>codeStr = String(adcode)\<close>: when \<open>codeStr\<close> is not six digits, or
  special regions are excluded and \<open>codeStr\<close> is one of 710000, 810000, 820000, or
  \<open>codeStr\<close> is not a key of the table, \<open>getProvinceNameByAdcode\<close> returns \<open>returnDefault\<close>
  if it is given and \<open>codeStr\<close> if not; in every other case it returns the table's entry
  for \<open>codeStr\<close>. With no \<open>returnDefault\<close> the result is \<open>codeStr\<close> in exactly the
  cases listed. For 710000 the result is the entry of the table by default, and 710000
  itself when special regions are excluded.
\<close>

theorem getProvinceNameByAdcode_fallback_or_entry:
  "(let codeStr = ToString nts adcode;
        fallback = (case returnDefault_of opts of Some d \<Rightarrow> d | None \<Rightarrow> codeStr)
    in if \<not> (length codeStr = 6 \<and> (\<forall>c \<in> set codeStr. 0x30 \<le> c \<and> c \<le> 0x39))
          \<or> (\<not> includeSpecialRegions_of opts
               \<and> codeStr \<in> {ascii ''710000'', ascii ''810000'', ascii ''820000''})
          \<or> codeStr \<notin> set (map fst ADCODE_TO_PROVINCE)
       then getProvinceNameByAdcode nts adcode opts = Str fallback
       else \<exists>entry. map_of ADCODE_TO_PROVINCE codeStr = Some entry
                 \<and> getProvinceNameByAdcode nts adcode opts = Str entry)
   \<and> (returnDefault_of opts = None \<longrightarrow>
        (getProvinceNameByAdcode nts adcode opts = Str (ToString nts adcode))
        = (let codeStr = ToString nts adcode
           in \<not> (length codeStr = 6 \<and> (\<forall>c \<in> set codeStr. 0x30 \<le> c \<and> c \<le> 0x39))
              \<or> (\<not> includeSpecialRegions_of opts
                   \<and> codeStr \<in> {ascii ''710000'', ascii ''810000'', ascii ''820000''})
              \<or> codeStr \<notin> set (map fst ADCODE_TO_PROVINCE)))
   \<and> getProvinceNameByAdcode nts (AdcodeStr (ascii ''710000'')) None
       = Str [0x53F0, 0x6E7E, 0x7701]
   \<and> getProvinceNameByAdcode nts (AdcodeStr (ascii ''710000''))
        (Some \<lparr>includeSpecialRegions = Some False, returnDefault = None\<rparr>)
       = Str (ascii ''710000'')"
proof (intro conjI)
  show "let codeStr = ToString nts adcode;
        fallback = (case returnDefault_of opts of Some d \<Rightarrow> d | None \<Rightarrow> codeStr)
    in if \<not> (length codeStr = 6 \<and> (\<forall>c \<in> set codeStr. 0x30 \<le> c \<and> c \<le> 0x39))
          \<or> (\<not> includeSpecialRegions_of opts
               \<and> codeStr \<in> {ascii ''710000'', ascii ''810000'', ascii ''820000''})
          \<or> codeStr \<notin> set (map fst ADCODE_TO_PROVINCE)
       then getProvinceNameByAdcode nts adcode opts = Str fallback
       else \<exists>entry. map_of ADCODE_TO_PROVINCE codeStr = Some entry
                 \<and> getProvinceNameByAdcode nts adcode opts = Str entry"
    unfolding getProvinceNameByAdcode_eq special_codes_set test_six_digits_iff [symmetric] Let_def
    using map_of_table_key [of "ToString nts adcode"]
    by (auto split: option.splits)
next
  show "returnDefault_of opts = None \<longrightarrow>
        (getProvinceNameByAdcode nts adcode opts = Str (ToString nts adcode))
        = (let codeStr = ToString nts adcode
           in \<not> (length codeStr = 6 \<and> (\<forall>c \<in> set codeStr. 0x30 \<le> c \<and> c \<le> 0x39))
              \<or> (\<not> includeSpecialRegions_of opts
                   \<and> codeStr \<in> {ascii ''710000'', ascii ''810000'', ascii ''820000''})
              \<or> codeStr \<notin> set (map fst ADCODE_TO_PROVINCE))"
    unfolding getProvinceNameByAdcode_eq special_codes_set test_six_digits_iff [symmetric] Let_def
    using map_of_table_key [of "ToString nts adcode"]
      table_entry_not_key [of "ToString nts adcode"]
    by (auto split: option.splits)
next
  show "getProvinceNameByAdcode nts (AdcodeStr (ascii ''710000'')) None
      = Str [0x53F0, 0x6E7E, 0x7701]"
    by (simp add: getProvinceNameByAdcode_eq ToString_def six_digits_examples
        includeSpecialRegions_of_def returnDefault_of_def map_of_table_710000)
next
  show "getProvinceNameByAdcode nts (AdcodeStr (ascii ''710000''))
        (Some \<lparr>includeSpecialRegions = Some False, returnDefault = None\<rparr>)
      = Str (ascii ''710000'')"
    by (simp add: getProvinceNameByAdcode_eq ToString_def six_digits_examples
        includeSpecialRegions_of_def returnDefault_of_def)
qed

text \<open>
  The unknown code 999999 with a fallback gives the fallback, and the number 440000 gives
  the entry of 440000.
\<close>

theorem getProvinceNameByAdcode_fallback_or_entry_witness:
  "getProvinceNameByAdcode natToString (AdcodeStr (ascii ''999999''))
     (Some \<lparr>includeSpecialRegions = None,
            returnDefault = Some [0x672A, 0x77E5, 0x5730, 0x533A]\<rparr>)
     = Str [0x672A, 0x77E5, 0x5730, 0x533A]
   \<and> getProvinceNameByAdcode natToString (AdcodeNum (Num 440000)) None
     = Str [0x5E7F, 0x4E1C, 0x7701]"
proof
  have k: "ascii ''999999'' \<notin> set (map fst ADCODE_TO_PROVINCE)"
    using map_of_table_key [of "ascii ''999999''"] by (simp add: map_of_table_999999)
  show "getProvinceNameByAdcode natToString (AdcodeStr (ascii ''999999''))
     (Some \<lparr>includeSpecialRegions = None,
            returnDefault = Some [0x672A, 0x77E5, 0x5730, 0x533A]\<rparr>)
     = Str [0x672A, 0x77E5, 0x5730, 0x533A]"
    using getProvinceNameByAdcode_fallback_or_entry [of natToString "AdcodeStr (ascii ''999999'')"
        "Some \<lparr>includeSpecialRegions = None,
               returnDefault = Some [0x672A, 0x77E5, 0x5730, 0x533A]\<rparr>"] k
    by (simp add: ToString_def returnDefault_of_def Let_def)
next
  have s: "ToString natToString (AdcodeNum (Num 440000)) = ascii ''440000''"
    by (simp add: ToString_def natToString.simps ascii_def)
  have k: "ascii ''440000'' \<in> set (map fst ADCODE_TO_PROVINCE)"
    using map_of_table_key [of "ascii ''440000''"] by (simp add: map_of_table_440000)
  have d: "length (ascii ''440000'') = 6
      \<and> (\<forall>c \<in> set (ascii ''440000''). 0x30 \<le> c \<and> c \<le> 0x39)"
    using six_digits_examples(2) unfolding test_six_digits_iff .
  show "getProvinceNameByAdcode natToString (AdcodeNum (Num 440000)) None
      = Str [0x5E7F, 0x4E1C, 0x7701]"
    using getProvinceNameByAdcode_fallback_or_entry [of natToString "AdcodeNum (Num 440000)" None]
      k d
    by (simp add: s includeSpecialRegions_of_def map_of_table_440000 Let_def
        del: set_map list.map)
qed

lemma getAdcodeByProvinceName_eq:
  "getAdcodeByProvinceName n =
     (case find (\<lambda>(_, m). m = n) ADCODE_TO_PROVINCE of Some e \<Rightarrow> Some (fst e) | None \<Rightarrow> None)"
  by (simp add: getAdcodeByProvinceName_def Object_entries_def own_properties_table)

lemma getAdcodeByProvinceName_entry:
  "(code, entry) \<in> set ADCODE_TO_PROVINCE \<Longrightarrow> getAdcodeByProvinceName entry = Some code"
  by (simp add: getAdcodeByProvinceName_eq find_name_Some [OF table_names_distinct])

lemma getAdcodeByProvinceName_unknown:
  "entry \<notin> set (map snd ADCODE_TO_PROVINCE) \<Longrightarrow> getAdcodeByProvinceName entry = None"
  by (simp add: getAdcodeByProvinceName_eq find_name_None)

lemma getProvinceNameByAdcode_entry:
  assumes "(code, entry) \<in> set ADCODE_TO_PROVINCE" and "includeSpecialRegions_of opts"
  shows "getProvinceNameByAdcode nts (AdcodeStr code) opts = Str entry"
proof -
  have m: "map_of ADCODE_TO_PROVINCE code = Some entry"
    using assms(1) table_keys_distinct by simp
  have "code \<in> set (map fst ADCODE_TO_PROVINCE)"
    using assms(1) by force
  then have "test_six_digits code"
    by (rule table_key_six_digits)
  then show ?thesis
    using m assms(2) by (simp add: getProvinceNameByAdcode_eq ToString_def)
qed

section \<open>Round trip\<close>

text \<open>
  Claim C2. For every code that is a key of the table, with special regions included and
  no fallback given, \<open>getProvinceNameByAdcode\<close> returns the table's entry for the code,
  and \<open>getAdcodeByProvinceName\<close> maps that entry back to the code.
\<close>

theorem province_name_roundtrip:
  "code \<in> set (map fst ADCODE_TO_PROVINCE) \<Longrightarrow>
   includeSpecialRegions_of opts \<Longrightarrow> returnDefault_of opts = None \<Longrightarrow>
   \<exists>entry. map_of ADCODE_TO_PROVINCE code = Some entry
     \<and> getProvinceNameByAdcode nts (AdcodeStr code) opts = Str entry
     \<and> getAdcodeByProvinceName entry = Some code"
proof -
  assume k: "code \<in> set (map fst ADCODE_TO_PROVINCE)" and i: "includeSpecialRegions_of opts"
  from k obtain entry where e: "(code, entry) \<in> set ADCODE_TO_PROVINCE"
    by auto
  then have "map_of ADCODE_TO_PROVINCE code = Some entry"
    using table_keys_distinct by simp
  moreover have "getProvinceNameByAdcode nts (AdcodeStr code) opts = Str entry"
    using e i by (rule getProvinceNameByAdcode_entry)
  moreover have "getAdcodeByProvinceName entry = Some code"
    using e by (rule getAdcodeByProvinceName_entry)
  ultimately show ?thesis by blast
qed

lemma key_440000: "ascii ''440000'' \<in> set (map fst ADCODE_TO_PROVINCE)"
  using map_of_table_key [of "ascii ''440000''"] by (simp add: map_of_table_440000)

lemma no_key_999999: "ascii ''999999'' \<notin> set (map fst ADCODE_TO_PROVINCE)"
  using map_of_table_key [of "ascii ''999999''"] by (simp add: map_of_table_999999)

lemma no_key_000000: "ascii ''000000'' \<notin> set (map fst ADCODE_TO_PROVINCE)"
  using map_of_table_key [of "ascii ''000000''"] by (simp add: map_of_table_000000)

text \<open>The code 440000 under the default options.\<close>

theorem province_name_roundtrip_witness:
  "getProvinceNameByAdcode natToString (AdcodeStr (ascii ''440000'')) None
     = Str [0x5E7F, 0x4E1C, 0x7701]
   \<and> getAdcodeByProvinceName [0x5E7F, 0x4E1C, 0x7701] = Some (ascii ''440000'')"
  using province_name_roundtrip [of "ascii ''440000''" None natToString] key_440000
  by (simp add: includeSpecialRegions_of_def returnDefault_of_def map_of_table_440000
      del: set_map list.map)

lemma isValidProvinceAdcode_eq:
  "isValidProvinceAdcode nts adcode opts =
     (test_six_digits (ToString nts adcode)
      \<and> \<not> (\<not> includeSpecialRegions_of opts
            \<and> ToString nts adcode \<in> set (map ascii [''710000'', ''810000'', ''820000'']))
      \<and> ToString nts adcode \<in> set (map fst ADCODE_TO_PROVINCE))"
  using HasProperty_six_digits [of "ToString nts adcode"]
  by (auto simp add: isValidProvinceAdcode_def Let_def simp del: set_map list.map)

section \<open>Validity\<close>

text \<open>
  Claim C3. \<open>isValidProvinceAdcode\<close> is true exactly when \<open>String(adcode)\<close> is six
  digits, is not one of 710000, 810000, 820000 while special regions are excluded, and
  is a key of the table. It is true of 440000 and false of 000000.
\<close>

theorem isValidProvinceAdcode_iff:
  "isValidProvinceAdcode nts adcode opts =
     (let codeStr = ToString nts adcode
      in (length codeStr = 6 \<and> (\<forall>c \<in> set codeStr. 0x30 \<le> c \<and> c \<le> 0x39))
         \<and> \<not> (\<not> includeSpecialRegions_of opts
               \<and> codeStr \<in> {ascii ''710000'', ascii ''810000'', ascii ''820000''})
         \<and> codeStr \<in> set (map fst ADCODE_TO_PROVINCE))
   \<and> isValidProvinceAdcode nts (AdcodeStr (ascii ''440000'')) None
   \<and> \<not> isValidProvinceAdcode nts (AdcodeStr (ascii ''000000'')) None"
proof (intro conjI)
  show "isValidProvinceAdcode nts adcode opts =
     (let codeStr = ToString nts adcode
      in (length codeStr = 6 \<and> (\<forall>c \<in> set codeStr. 0x30 \<le> c \<and> c \<le> 0x39))
         \<and> \<not> (\<not> includeSpecialRegions_of opts
               \<and> codeStr \<in> {ascii ''710000'', ascii ''810000'', ascii ''820000''})
         \<and> codeStr \<in> set (map fst ADCODE_TO_PROVINCE))"
    unfolding isValidProvinceAdcode_eq special_codes_set test_six_digits_iff Let_def ..
next
  show "isValidProvinceAdcode nts (AdcodeStr (ascii ''440000'')) None"
    using key_440000
    by (simp add: isValidProvinceAdcode_eq ToString_def six_digits_examples
        includeSpecialRegions_of_def del: set_map list.map)
next
  show "\<not> isValidProvinceAdcode nts (AdcodeStr (ascii ''000000'')) None"
    using no_key_000000
    by (simp add: isValidProvinceAdcode_eq ToString_def del: set_map list.map)
qed

lemma six_digits_810000: "test_six_digits (ascii ''810000'')"
  by (simp add: test_six_digits_def is_digit_def ascii_def)

lemma map_of_table_810000:
  "map_of ADCODE_TO_PROVINCE (ascii ''810000'')
     = Some [0x9999, 0x6E2F, 0x7279, 0x522B, 0x884C, 0x653F, 0x533A]"
  by (simp add: ADCODE_TO_PROVINCE_def ascii_def)

lemma key_810000: "ascii ''810000'' \<in> set (map fst ADCODE_TO_PROVINCE)"
  using map_of_table_key [of "ascii ''810000''"] by (simp add: map_of_table_810000)

lemma natToString_810000: "natToString 810000 = ascii ''810000''"
  by (simp add: natToString.simps ascii_def)

text \<open>The number 810000 is valid by default and not valid once special regions are excluded.\<close>

theorem isValidProvinceAdcode_iff_witness:
  "isValidProvinceAdcode natToString (AdcodeNum (Num 810000)) None
   \<and> \<not> isValidProvinceAdcode natToString (AdcodeNum (Num 810000))
         (Some \<lparr>includeSpecialRegions = Some False, returnDefault = None\<rparr>)"
proof
  have d: "length (ascii ''810000'') = 6
      \<and> (\<forall>c \<in> set (ascii ''810000''). 0x30 \<le> c \<and> c \<le> 0x39)"
    using six_digits_810000 unfolding test_six_digits_iff .
  show "isValidProvinceAdcode natToString (AdcodeNum (Num 810000)) None"
    using isValidProvinceAdcode_iff [of natToString "AdcodeNum (Num 810000)" None] key_810000 d
    by (simp add: ToString_def natToString_810000 includeSpecialRegions_of_def Let_def
        del: set_map list.map)
  show "\<not> isValidProvinceAdcode natToString (AdcodeNum (Num 810000))
         (Some \<lparr>includeSpecialRegions = Some False, returnDefault = None\<rparr>)"
    using isValidProvinceAdcode_iff [of natToString "AdcodeNum (Num 810000)"
        "Some \<lparr>includeSpecialRegions = Some False, returnDefault = None\<rparr>"]
    by (simp add: ToString_def natToString_810000 includeSpecialRegions_of_def Let_def
        del: set_map list.map)
qed


lemma Object_keys_table: "Object_keys ADCODE_TO_PROVINCE = map fst ADCODE_TO_PROVINCE"
  by (simp add: Object_keys_def own_properties_table)

lemma getAllProvinceAdcodes_eq:
  "getAllProvinceAdcodes opts =
     (if includeSpecialRegions_of opts then map fst ADCODE_TO_PROVINCE
      else filter (\<lambda>code. code \<notin> {ascii ''710000'', ascii ''810000'', ascii ''820000''})
             (map fst ADCODE_TO_PROVINCE))"
  unfolding getAllProvinceAdcodes_def Object_keys_table special_codes_set Let_def by simp

lemma length_table: "length ADCODE_TO_PROVINCE = 34"
  by (simp add: ADCODE_TO_PROVINCE_def)

lemma length_without_special:
  "length (filter (\<lambda>code. code \<notin> {ascii ''710000'', ascii ''810000'', ascii ''820000''})
     (map fst ADCODE_TO_PROVINCE)) = 31"
  by (simp add: ADCODE_TO_PROVINCE_def ascii_def)

lemma length_getAllProvinceAdcodes_excluded:
  "\<not> includeSpecialRegions_of opts \<Longrightarrow> length (getAllProvinceAdcodes opts) = 31"
  by (simp only: getAllProvinceAdcodes_eq if_False length_without_special)

section \<open>Enumeration\<close>

text \<open>
  Claim C6. With special regions included \<open>getAllProvinceAdcodes\<close> returns the keys of
  the table in the order of its definition. With special regions excluded it returns that
  sequence without 710000, 810000 and 820000, which is three codes fewer. The result
  depends on nothing but the effective option, so equal options give equal results.
\<close>

theorem getAllProvinceAdcodes_order:
  "(includeSpecialRegions_of opts \<longrightarrow>
      getAllProvinceAdcodes opts = map fst ADCODE_TO_PROVINCE)
   \<and> (\<not> includeSpecialRegions_of opts \<longrightarrow>
      getAllProvinceAdcodes opts =
        filter (\<lambda>code. code \<notin> {ascii ''710000'', ascii ''810000'', ascii ''820000''})
          (map fst ADCODE_TO_PROVINCE)
      \<and> length (getAllProvinceAdcodes opts) + 3 = length (map fst ADCODE_TO_PROVINCE))
   \<and> (includeSpecialRegions_of opts = includeSpecialRegions_of opts' \<longrightarrow>
      getAllProvinceAdcodes opts = getAllProvinceAdcodes opts')"
proof (intro conjI impI)
  assume "includeSpecialRegions_of opts"
  then show "getAllProvinceAdcodes opts = map fst ADCODE_TO_PROVINCE"
    by (simp only: getAllProvinceAdcodes_eq if_True)
next
  assume "\<not> includeSpecialRegions_of opts"
  then show "getAllProvinceAdcodes opts =
      filter (\<lambda>code. code \<notin> {ascii ''710000'', ascii ''810000'', ascii ''820000''})
        (map fst ADCODE_TO_PROVINCE)"
    by (simp only: getAllProvinceAdcodes_eq if_False)
next
  assume "\<not> includeSpecialRegions_of opts"
  then have "length (getAllProvinceAdcodes opts) = 31"
    by (rule length_getAllProvinceAdcodes_excluded)
  then show "length (getAllProvinceAdcodes opts) + 3 = length (map fst ADCODE_TO_PROVINCE)"
    by (simp add: length_table)
next
  assume "includeSpecialRegions_of opts = includeSpecialRegions_of opts'"
  then show "getAllProvinceAdcodes opts = getAllProvinceAdcodes opts'"
    by (simp only: getAllProvinceAdcodes_eq)
qed

text \<open>No options, the option set to false, and the option set to true.\<close>

theorem getAllProvinceAdcodes_order_witness:
  "getAllProvinceAdcodes None = map fst ADCODE_TO_PROVINCE
   \<and> length (getAllProvinceAdcodes
        (Some \<lparr>includeSpecialRegions = Some False, returnDefault = None\<rparr>)) + 3 = 34
   \<and> getAllProvinceAdcodes None
       = getAllProvinceAdcodes (Some \<lparr>includeSpecialRegions = Some True, returnDefault = None\<rparr>)"
proof -
  have t: "includeSpecialRegions_of None"
    "includeSpecialRegions_of (Some \<lparr>includeSpecialRegions = Some True, returnDefault = None\<rparr>)"
    by (simp_all add: includeSpecialRegions_of_def)
  have f: "\<not> includeSpecialRegions_of
      (Some \<lparr>includeSpecialRegions = Some False, returnDefault = None\<rparr>)"
    by (simp add: includeSpecialRegions_of_def)
  have a: "getAllProvinceAdcodes None = map fst ADCODE_TO_PROVINCE"
    and c: "getAllProvinceAdcodes None
      = getAllProvinceAdcodes (Some \<lparr>includeSpecialRegions = Some True, returnDefault = None\<rparr>)"
    using getAllProvinceAdcodes_order [of None "Some \<lparr>includeSpecialRegions = Some True, returnDefault = None\<rparr>"] t
    by blast+
  have "length (getAllProvinceAdcodes
        (Some \<lparr>includeSpecialRegions = Some False, returnDefault = None\<rparr>)) + 3
      = length (map fst ADCODE_TO_PROVINCE)"
    using getAllProvinceAdcodes_order [of "Some \<lparr>includeSpecialRegions = Some False, returnDefault = None\<rparr>" None] f
    by blast
  then have b: "length (getAllProvinceAdcodes
        (Some \<lparr>includeSpecialRegions = Some False, returnDefault = None\<rparr>)) + 3 = 34"
    by (simp only: length_map length_table)
  show ?thesis
    using a b c by blast
qed

section \<open>No failure\<close>

text \<open>
  Claim C7. For every string or number and every options value,
  \<open>getProvinceNameByAdcode\<close> returns a string: nothing in it can throw, and the lookup
  in the table yields neither \<open>undefined\<close> nor an inherited member of the prototype.
\<close>

theorem getProvinceNameByAdcode_returns_string:
  "\<exists>s. getProvinceNameByAdcode nts adcode opts = Str s"
proof (cases "test_six_digits (ToString nts adcode)")
  case False
  then show ?thesis
    by (simp add: getProvinceNameByAdcode_def Let_def)
next
  case True
  then have g: "Get ADCODE_TO_PROVINCE (ToString nts adcode) =
      (case map_of ADCODE_TO_PROVINCE (ToString nts adcode) of
         Some v \<Rightarrow> Str v | None \<Rightarrow> (Undefined :: 'a jsvalue))"
    by (rule Get_six_digits)
  show ?thesis
  proof (cases "map_of ADCODE_TO_PROVINCE (ToString nts adcode)")
    case None
    then show ?thesis
      using g by (simp add: getProvinceNameByAdcode_def Let_def)
  next
    case (Some v)
    then show ?thesis
      using g by (simp add: getProvinceNameByAdcode_def Let_def)
  qed
qed

text \<open>The name of an inherited member, and NaN, both come back as strings.\<close>

theorem getProvinceNameByAdcode_returns_string_witness:
  "is_string (getProvinceNameByAdcode natToString (AdcodeStr (ascii ''toString'')) None)
   \<and> is_string (getProvinceNameByAdcode natToString (AdcodeNum NaN)
        (Some \<lparr>includeSpecialRegions = Some False, returnDefault = None\<rparr>))"
  using getProvinceNameByAdcode_returns_string [of natToString "AdcodeStr (ascii ''toString'')" None]
    getProvinceNameByAdcode_returns_string [of natToString "AdcodeNum NaN"
      "Some \<lparr>includeSpecialRegions = Some False, returnDefault = None\<rparr>"]
  by auto

section \<open>Validity and enumeration agree\<close>

text \<open>
  Claim C9. \<open>isValidProvinceAdcode(adcode, options)\<close> is true exactly when
  \<open>String(adcode)\<close> is an element of \<open>getAllProvinceAdcodes(options)\<close>.
\<close>

theorem validity_agrees_with_enumeration:
  "isValidProvinceAdcode nts adcode opts
   = (ToString nts adcode \<in> set (getAllProvinceAdcodes opts))"
  using table_key_six_digits [of "ToString nts adcode"]
  unfolding isValidProvinceAdcode_eq getAllProvinceAdcodes_eq special_codes_set
  by auto

text \<open>440000 is listed, 000000 is not.\<close>

theorem validity_agrees_with_enumeration_witness:
  "ascii ''440000'' \<in> set (getAllProvinceAdcodes None)
   \<and> ascii ''000000'' \<notin> set (getAllProvinceAdcodes None)"
  using validity_agrees_with_enumeration [of natToString "AdcodeStr (ascii ''440000'')" None]
    validity_agrees_with_enumeration [of natToString "AdcodeStr (ascii ''000000'')" None]
    key_440000 no_key_000000
  by (simp add: isValidProvinceAdcode_eq ToString_def six_digits_examples
      includeSpecialRegions_of_def del: set_map list.map)

section \<open>Reverse round trip\<close>

text \<open>
  Claim C10. For every name that is a value of the table, \<open>getAdcodeByProvinceName\<close>
  returns a code, and \<open>getProvinceNameByAdcode\<close> with default options maps that code
  back to the name. For every other name \<open>getAdcodeByProvinceName\<close> returns \<open>null\<close>.
\<close>

theorem province_name_reverse_roundtrip:
  "(entry \<in> set (map snd ADCODE_TO_PROVINCE) \<longrightarrow>
      (\<exists>code. getAdcodeByProvinceName entry = Some code
         \<and> getProvinceNameByAdcode nts (AdcodeStr code) None = Str entry))
   \<and> (entry \<notin> set (map snd ADCODE_TO_PROVINCE) \<longrightarrow> getAdcodeByProvinceName entry = None)"
proof (intro conjI impI)
  assume "entry \<in> set (map snd ADCODE_TO_PROVINCE)"
  then obtain code where e: "(code, entry) \<in> set ADCODE_TO_PROVINCE"
    by auto
  have "getAdcodeByProvinceName entry = Some code"
    using e by (rule getAdcodeByProvinceName_entry)
  moreover have "getProvinceNameByAdcode nts (AdcodeStr code) None = Str entry"
    using e by (rule getProvinceNameByAdcode_entry) (simp add: includeSpecialRegions_of_def)
  ultimately show "\<exists>code. getAdcodeByProvinceName entry = Some code
      \<and> getProvinceNameByAdcode nts (AdcodeStr code) None = Str entry"
    by blast
next
  assume "entry \<notin> set (map snd ADCODE_TO_PROVINCE)"
  then show "getAdcodeByProvinceName entry = None"
    by (rule getAdcodeByProvinceName_unknown)
qed

lemma name_guangdong: "[0x5E7F, 0x4E1C, 0x7701] \<in> set (map snd ADCODE_TO_PROVINCE)"
  by (simp add: ADCODE_TO_PROVINCE_def)

lemma no_name_unknown: "[0x672A, 0x77E5, 0x7701, 0x4EFD] \<notin> set (map snd ADCODE_TO_PROVINCE)"
  by (simp add: ADCODE_TO_PROVINCE_def)

text \<open>A name of the table, and a name that is not in it.\<close>

theorem province_name_reverse_roundtrip_witness:
  "(case getAdcodeByProvinceName [0x5E7F, 0x4E1C, 0x7701] of
      Some code \<Rightarrow>
        getProvinceNameByAdcode natToString (AdcodeStr code) None = Str [0x5E7F, 0x4E1C, 0x7701]
    | None \<Rightarrow> False)
   \<and> getAdcodeByProvinceName [0x672A, 0x77E5, 0x7701, 0x4EFD] = None"
  using province_name_reverse_roundtrip [of "[0x5E7F, 0x4E1C, 0x7701]" natToString]
    province_name_reverse_roundtrip [of "[0x672A, 0x77E5, 0x7701, 0x4EFD]" natToString]
    name_guangdong no_name_unknown
  by (auto simp del: set_map list.map)

section \<open>The reshape\<close>

text \<open>On a payload the two loops never fail, and build one series per entry.\<close>

lemma value_map_points:
  "value_map pf (map point_value pts) (ts, vs) =
     Inr (ts @ map fst pts, vs @ map (\<lambda>p. pf (snd p)) pts)"
  by (induction pts arbitrary: ts vs) (simp_all add: point_value_def Object_values_def index_def)

lemma for_entries_points:
  "for_entries pf (map (\<lambda>(key, points). (key, Array (map point_value points))) es) acc =
     Inr (acc @ map (series_of pf) es)"
  by (induction es arbitrary: acc) (auto simp: value_map_points series_of_def)

lemma insort_key_map_snd:
  "insort_key (\<lambda>p. k (fst p)) (a, g a b) (map (\<lambda>(x, y). (x, g x y)) xs) =
   map (\<lambda>(x, y). (x, g x y)) (insort_key (\<lambda>p. k (fst p)) (a, b) xs)"
  by (induction xs) auto

lemma sort_key_map_snd:
  "sort_key (\<lambda>p. k (fst p)) (map (\<lambda>(x, y). (x, g x y)) xs) =
   map (\<lambda>(x, y). (x, g x y)) (sort_key (\<lambda>p. k (fst p)) xs)"
  by (induction xs) (auto simp: insort_key_map_snd)

lemma filter_map_snd:
  "filter (\<lambda>p. P (fst p)) (map (\<lambda>(x, y). (x, g x y)) xs) =
   map (\<lambda>(x, y). (x, g x y)) (filter (\<lambda>p. P (fst p)) xs)"
  by (induction xs) auto

lemma own_properties_map_snd:
  "own_properties (map (\<lambda>(x, y). (x, g x y)) xs) = map (\<lambda>(x, y). (x, g x y)) (own_properties xs)"
  by (simp add: own_properties_def sort_key_map_snd filter_map_snd [where P = is_array_index]
      filter_map_snd [where P = "\<lambda>k. \<not> is_array_index k"])

lemma dblClickFn_reshape_payload:
  "dblClickFn_reshape pf (payload_object payload) = Inr (map (series_of pf) (own_properties payload))"
  by (simp add: dblClickFn_reshape_def Object_entries_def payload_object_def
      own_properties_map_snd for_entries_points)

text \<open>Outside the payloads the loops do fail: a series that is not an array, a point that is \<open>null\<close>.\<close>

lemma reshape_series_not_array: "dblClickFn_reshape pf [(ascii ''GDP'', Null)] = Inl TypeError"
  by (simp add: dblClickFn_reshape_def Object_entries_def own_properties_def)

lemma reshape_point_null: "dblClickFn_reshape pf [(ascii ''GDP'', Array [Null])] = Inl TypeError"
  by (simp add: dblClickFn_reshape_def Object_entries_def own_properties_def Object_values_def
      is_array_index_def ascii_def is_digit_def)

lemma set_own_properties: "set (own_properties ps) = set ps"
  by (auto simp: own_properties_def)

lemma length_own_properties: "length (own_properties ps) = length ps"
  by (simp add: own_properties_def sum_length_filter_compl)

lemma distinct_own_properties:
  assumes "distinct (map fst ps)"
  shows "distinct (map fst (own_properties ps))"
proof -
  have d: "distinct ps"
    using assms by (simp add: distinct_map)
  have i: "inj_on fst (set ps)"
    using assms by (simp add: distinct_map)
  have "distinct (own_properties ps)"
    using d by (auto simp: own_properties_def)
  then show ?thesis
    using i by (simp add: distinct_map set_own_properties)
qed

lemma name_series_of: "name (series_of pf e) = fst e"
  by (simp add: series_of_def)

lemma map_name_series: "map name (map (series_of pf) es) = map fst es"
  by (simp add: comp_def name_series_of)

text \<open>
  Claim C4. For every payload, the reshape returns one series per key of the payload:
  as many series as keys, with pairwise different names that are exactly the keys, and
  in each series \<open>time\<close> and \<open>value\<close> are as long as the point list of the key of that
  name. The empty payload gives the empty sequence.
\<close>

theorem reshape_one_series_per_key:
  "(distinct (map fst payload) \<longrightarrow>
      (\<exists>out. dblClickFn_reshape pf (payload_object payload) = Inr out
         \<and> length out = length payload
         \<and> distinct (map name out)
         \<and> set (map name out) = set (map fst payload)
         \<and> (\<forall>s \<in> set out. \<exists>points. (name s, points) \<in> set payload
               \<and> length (time s) = length points \<and> length (value s) = length points)))
   \<and> dblClickFn_reshape pf (payload_object []) = Inr []"
proof (intro conjI impI)
  assume d: "distinct (map fst payload)"
  let ?out = "map (series_of pf) (own_properties payload)"
  have 1: "dblClickFn_reshape pf (payload_object payload) = Inr ?out"
    by (rule dblClickFn_reshape_payload)
  have 2: "length ?out = length payload"
    by (simp add: length_own_properties)
  have n: "map name ?out = map fst (own_properties payload)"
    by (rule map_name_series)
  have 3: "distinct (map name ?out)"
    unfolding n using d by (rule distinct_own_properties)
  have 4: "set (map name ?out) = set (map fst payload)"
    unfolding n by (simp add: set_own_properties)
  have 5: "\<forall>s \<in> set ?out. \<exists>points. (name s, points) \<in> set payload
               \<and> length (time s) = length points \<and> length (value s) = length points"
    by (auto simp: set_own_properties series_of_def)
  show "\<exists>out. dblClickFn_reshape pf (payload_object payload) = Inr out
         \<and> length out = length payload
         \<and> distinct (map name out)
         \<and> set (map name out) = set (map fst payload)
         \<and> (\<forall>s \<in> set out. \<exists>points. (name s, points) \<in> set payload
               \<and> length (time s) = length points \<and> length (value s) = length points)"
    using 1 2 3 4 5 by blast
next
  show "dblClickFn_reshape pf (payload_object []) = Inr []"
    by (simp add: dblClickFn_reshape_payload own_properties_def)
qed

lemma series_in_output:
  "(key, points) \<in> set payload \<Longrightarrow>
   series_of pf (key, points) \<in> set (map (series_of pf) (own_properties payload))"
  by (simp add: set_own_properties)

text \<open>
  Claim C5. When \<open>parseFloat\<close> gives NaN on the value of the observation at position
  \<open>i\<close> of a series, the reshape still returns normally, the series is in the result
  with all its positions, NaN stands at position \<open>i\<close> of \<open>value\<close>, and every position
  holds what \<open>parseFloat\<close> gives on the value of its observation.
\<close>

theorem reshape_unparseable_value_NaN:
  "distinct (map fst payload) \<Longrightarrow> (key, points) \<in> set payload \<Longrightarrow>
   i < length points \<Longrightarrow> pf (snd (points ! i)) = NaN \<Longrightarrow>
   \<exists>out s. dblClickFn_reshape pf (payload_object payload) = Inr out
     \<and> s \<in> set out \<and> name s = key
     \<and> length (value s) = length points \<and> length (time s) = length points
     \<and> value s ! i = NaN
     \<and> (\<forall>j < length points. value s ! j = pf (snd (points ! j)) \<and> time s ! j = fst (points ! j))"
proof -
  assume m: "(key, points) \<in> set payload" and i: "i < length points"
    and n: "pf (snd (points ! i)) = NaN"
  let ?out = "map (series_of pf) (own_properties payload)"
  let ?s = "series_of pf (key, points)"
  have 1: "dblClickFn_reshape pf (payload_object payload) = Inr ?out"
    by (rule dblClickFn_reshape_payload)
  have 2: "?s \<in> set ?out"
    using m by (rule series_in_output)
  have 3: "name ?s = key" "length (value ?s) = length points" "length (time ?s) = length points"
    by (simp_all add: series_of_def)
  have 4: "value ?s ! i = NaN"
    using i n by (simp add: series_of_def)
  have 5: "\<forall>j < length points. value ?s ! j = pf (snd (points ! j)) \<and> time ?s ! j = fst (points ! j)"
    by (simp add: series_of_def)
  show ?thesis
    using 1 2 3 4 5 by blast
qed

text \<open>
  Claim C8, amended. For every entry of a payload, the series of that name has in \<open>time\<close>
  the first components of the points unchanged, and in \<open>value\<close> what \<open>parseFloat\<close> gives
  on the second components, position by position. The elements of \<open>time\<close> are strings
  exactly when the incoming first components are.
\<close>

theorem reshape_time_unchanged_value_parsed:
  "distinct (map fst payload) \<Longrightarrow> (key, points) \<in> set payload \<Longrightarrow>
   \<exists>out s. dblClickFn_reshape pf (payload_object payload) = Inr out
     \<and> s \<in> set out \<and> name s = key
     \<and> time s = map fst points
     \<and> value s = map (\<lambda>p. pf (snd p)) points
     \<and> list_all is_string (time s) = list_all is_string (map fst points)"
proof -
  assume m: "(key, points) \<in> set payload"
  let ?out = "map (series_of pf) (own_properties payload)"
  let ?s = "series_of pf (key, points)"
  have 1: "dblClickFn_reshape pf (payload_object payload) = Inr ?out"
    by (rule dblClickFn_reshape_payload)
  have 2: "?s \<in> set ?out"
    using m by (rule series_in_output)
  have 3: "name ?s = key" "time ?s = map fst points" "value ?s = map (\<lambda>p. pf (snd p)) points"
    by (simp_all add: series_of_def)
  show ?thesis
    using 1 2 3 by metis
qed


lemma parseFloat_sample_abc: "parseFloat_sample (Str (ascii ''abc'')) = NaN"
  by (simp add: parseFloat_sample_def ascii_def)

lemma parseFloat_sample_100_5: "parseFloat_sample (Str (ascii ''100.5'')) = Num (201 / 2)"
  by (simp add: parseFloat_sample_def)

lemma own_properties_GDP: "own_properties [(ascii ''GDP'', x)] = [(ascii ''GDP'', x)]"
  by (simp add: own_properties_def is_array_index_def ascii_def is_digit_def)

lemma reshape_numeric_label_payload:
  "dblClickFn_reshape parseFloat_sample (payload_object numeric_label_payload) =
     Inr [\<lparr>name = ascii ''GDP'', time = [Number (Num 2020)], value = [Num (201 / 2)]\<rparr>]"
  by (simp add: dblClickFn_reshape_payload numeric_label_payload_def own_properties_GDP
      series_of_def parseFloat_sample_100_5)

lemma reshape_sample_payload:
  "dblClickFn_reshape parseFloat_sample (payload_object sample_payload) =
     Inr [\<lparr>name = ascii ''GDP'', time = [Str (ascii ''2020''), Str (ascii ''2021'')],
           value = [Num (201 / 2), NaN]\<rparr>]"
  by (simp add: dblClickFn_reshape_payload sample_payload_def own_properties_GDP
      series_of_def parseFloat_sample_100_5 parseFloat_sample_abc)

text \<open>
  Claim C8 as stated fails: a time label that arrives as the number 2020 is pushed as that
  number, so \<open>time\<close> holds a value that is not a string.
\<close>

theorem reshape_time_not_coerced:
  "\<not> time_all_strings
       (dblClickFn_reshape parseFloat_sample (payload_object numeric_label_payload))"
  by (simp add: reshape_numeric_label_payload time_all_strings_def)

text \<open>The payload with the one key GDP gives one series, named GDP.\<close>

theorem reshape_one_series_per_key_witness:
  "\<exists>out. dblClickFn_reshape parseFloat_sample (payload_object sample_payload) = Inr out
     \<and> length out = 1 \<and> map name out = [ascii ''GDP'']"
proof -
  have d: "distinct (map fst sample_payload)"
    by (simp add: sample_payload_def)
  obtain out where o: "dblClickFn_reshape parseFloat_sample (payload_object sample_payload) = Inr out"
    and l: "length out = length sample_payload"
    and n: "set (map name out) = set (map fst sample_payload)"
    using reshape_one_series_per_key [of sample_payload parseFloat_sample] d by blast
  have "length out = 1"
    using l by (simp add: sample_payload_def)
  then obtain s where s: "out = [s]"
    by (cases out) auto
  have "name s = ascii ''GDP''"
    using n s by (simp add: sample_payload_def)
  then show ?thesis
    using o s by simp
qed

text \<open>In the first example payload the second value is \<open>abc\<close>: NaN after 100.5.\<close>

theorem reshape_unparseable_value_NaN_witness:
  "\<exists>out s. dblClickFn_reshape parseFloat_sample (payload_object sample_payload) = Inr out
     \<and> s \<in> set out \<and> name s = ascii ''GDP'' \<and> length (value s) = 2
     \<and> value s ! 1 = NaN \<and> value s ! 0 = Num (201 / 2)"
proof -
  let ?points = "[(Str (ascii ''2020''), Str (ascii ''100.5'')),
                  (Str (ascii ''2021''), Str (ascii ''abc''))] :: rat RawSeriesPoint list"
  have d: "distinct (map fst sample_payload)"
    by (simp add: sample_payload_def)
  have m: "(ascii ''GDP'', ?points) \<in> set sample_payload"
    by (simp add: sample_payload_def)
  have i: "1 < length ?points"
    by simp
  have n: "parseFloat_sample (snd (?points ! 1)) = NaN"
    by (simp add: parseFloat_sample_abc)
  have "\<exists>out s. dblClickFn_reshape parseFloat_sample (payload_object sample_payload) = Inr out
     \<and> s \<in> set out \<and> name s = ascii ''GDP''
     \<and> length (value s) = length ?points \<and> length (time s) = length ?points
     \<and> value s ! 1 = NaN
     \<and> (\<forall>j < length ?points. value s ! j = parseFloat_sample (snd (?points ! j))
           \<and> time s ! j = fst (?points ! j))"
    using d m i n
    by (rule reshape_unparseable_value_NaN [where payload = sample_payload and key = "ascii ''GDP''"
          and points = ?points and i = 1 and pf = parseFloat_sample])
  then obtain out s
    where o: "dblClickFn_reshape parseFloat_sample (payload_object sample_payload) = Inr out"
    and s: "s \<in> set out" "name s = ascii ''GDP''" "length (value s) = length ?points"
      "value s ! 1 = NaN"
    and a: "\<forall>j < length ?points. value s ! j = parseFloat_sample (snd (?points ! j))
        \<and> time s ! j = fst (?points ! j)"
    by blast
  have "value s ! 0 = parseFloat_sample (snd (?points ! 0))"
    using a by simp
  then have "value s ! 0 = Num (201 / 2)"
    by (simp add: parseFloat_sample_100_5)
  then show ?thesis
    using o s by auto
qed

text \<open>The number 2020 stays the number 2020, and the string 100.5 is parsed.\<close>

theorem reshape_time_unchanged_value_parsed_witness:
  "\<exists>out s. dblClickFn_reshape parseFloat_sample (payload_object numeric_label_payload) = Inr out
     \<and> s \<in> set out \<and> name s = ascii ''GDP''
     \<and> time s = [Number (Num 2020)] \<and> value s = [Num (201 / 2)]"
proof -
  have d: "distinct (map fst numeric_label_payload)"
    by (simp add: numeric_label_payload_def)
  have m: "(ascii ''GDP'', [(Number (Num 2020), Str (ascii ''100.5''))]) \<in> set numeric_label_payload"
    by (simp add: numeric_label_payload_def)
  show ?thesis
    using reshape_time_unchanged_value_parsed [where payload = numeric_label_payload and key = "ascii ''GDP''"
        and points = "[(Number (Num 2020), Str (ascii ''100.5''))]" and pf = parseFloat_sample] d m
    by (auto simp: parseFloat_sample_100_5)
qed

end
